theory Spec2Isabelle
  imports Main "HOL-Library.Word"
begin

section \<open>Go values shared by the packages\<close>

text \<open>
  Go's \<^verbatim>\<open>int32\<close> is a 32-bit word read as two's complement. A Go \<^verbatim>\<open>error\<close> built by
  \<^verbatim>\<open>fmt.Errorf\<close> is its message; \<^verbatim>\<open>nil\<close> is \<open>None\<close>. A \<^verbatim>\<open>panic\<close> is a value of its
  own, carrying the message.
\<close>

type_synonym int32 = "32 word"

datatype go_error = Errorf string

datatype panic = Panic string

text \<open>The verb \<^verbatim>\<open>%d\<close> of package fmt: decimal digits, with a minus sign below zero.\<close>

fun fmt_nat :: "nat \<Rightarrow> string" where
  "fmt_nat n = (if n < 10 then [''0123456789'' ! n]
                else fmt_nat (n div 10) @ [''0123456789'' ! (n mod 10)])"

declare fmt_nat.simps [simp del]

definition fmt_d :: "int \<Rightarrow> string" where
  "fmt_d i = (if i < 0 then CHR ''-'' # fmt_nat (nat (- i)) else fmt_nat (nat i))"

section \<open>The version registry (package water)\<close>

text \<open>
  A Go function returning \<^verbatim>\<open>(RuntimeConn, error)\<close> returns a pair of two values that may
  each be \<^verbatim>\<open>nil\<close>. A constructor is Go code that may act on the rest of the process (it
  instantiates a module, dials): it takes the state \<open>'w\<close> of that rest and returns the
  new one. The two package-level maps \<^verbatim>\<open>mapOBRCV\<close> and \<^verbatim>\<open>mapIBRCV\<close> are the fields of
  the registry state, which every function of the package takes and, where it returns
  normally, hands back. A constructor stored in the registry acts on \<open>'w\<close> only.
\<close>

type_synonym 'conn conn_result = "'conn option \<times> go_error option"

type_synonym ('core, 'conn, 'w) ob_ctor = "'core \<Rightarrow> 'w \<Rightarrow> 'conn conn_result \<times> 'w"

type_synonym ('core, 'nc, 'conn, 'w) ib_ctor = "'core \<Rightarrow> 'nc \<Rightarrow> 'w \<Rightarrow> 'conn conn_result \<times> 'w"

record ('core, 'nc, 'conn, 'w) registry =
  mapOBRCV :: "int32 \<rightharpoonup> ('core, 'conn, 'w) ob_ctor"
  mapIBRCV :: "int32 \<rightharpoonup> ('core, 'nc, 'conn, 'w) ib_ctor"

text \<open>Both maps start empty: \<^verbatim>\<open>make(map[int32]func(...))\<close>.\<close>

definition registry_init :: "('core, 'nc, 'conn, 'w) registry" where
  "registry_init = \<lparr>mapOBRCV = Map.empty, mapIBRCV = Map.empty\<rparr>"

definition OutboundRuntimeConnWithVersion ::
  "'core \<Rightarrow> int32 \<Rightarrow> ('core, 'nc, 'conn, 'w) registry \<Rightarrow> 'w
     \<Rightarrow> 'conn conn_result \<times> ('core, 'nc, 'conn, 'w) registry \<times> 'w" where
  "OutboundRuntimeConnWithVersion core version reg w =
     (case mapOBRCV reg version of
        None \<Rightarrow>
          ((None, Some (Errorf (''water: unknown version: '' @ fmt_d (sint version)))), reg, w)
      | Some f \<Rightarrow> (case f core w of (r, w') \<Rightarrow> (r, reg, w')))"

definition RegisterOutboundRuntimeConnWithVersion ::
  "int32 \<Rightarrow> ('core, 'conn, 'w) ob_ctor \<Rightarrow> ('core, 'nc, 'conn, 'w) registry
     \<Rightarrow> panic + ('core, 'nc, 'conn, 'w) registry" where
  "RegisterOutboundRuntimeConnWithVersion version f reg =
     (case mapOBRCV reg version of
        Some _ \<Rightarrow>
          Inl (Panic (''water: version '' @ fmt_d (sint version) @ '' already registered''))
      | None \<Rightarrow> Inr (reg\<lparr>mapOBRCV := (mapOBRCV reg)(version \<mapsto> f)\<rparr>))"

definition InboundRuntimeConnWithVersion ::
  "'core \<Rightarrow> int32 \<Rightarrow> 'nc \<Rightarrow> ('core, 'nc, 'conn, 'w) registry \<Rightarrow> 'w
     \<Rightarrow> 'conn conn_result \<times> ('core, 'nc, 'conn, 'w) registry \<times> 'w" where
  "InboundRuntimeConnWithVersion core version ibc reg w =
     (case mapIBRCV reg version of
        None \<Rightarrow>
          ((None, Some (Errorf (''water: unknown version: '' @ fmt_d (sint version)))), reg, w)
      | Some f \<Rightarrow> (case f core ibc w of (r, w') \<Rightarrow> (r, reg, w')))"

definition RegisterInboundRuntimeConnWithVersion ::
  "int32 \<Rightarrow> ('core, 'nc, 'conn, 'w) ib_ctor \<Rightarrow> ('core, 'nc, 'conn, 'w) registry
     \<Rightarrow> panic + ('core, 'nc, 'conn, 'w) registry" where
  "RegisterInboundRuntimeConnWithVersion version f reg =
     (case mapIBRCV reg version of
        Some _ \<Rightarrow>
          Inl (Panic (''water: version '' @ fmt_d (sint version) @ '' already registered''))
      | None \<Rightarrow> Inr (reg\<lparr>mapIBRCV := (mapIBRCV reg)(version \<mapsto> f)\<rparr>))"

text \<open>
  Registrations happen one after the other (each version's package registers itself when
  it is initialised); the first panic ends the process.
\<close>

datatype ('core, 'nc, 'conn, 'w) registration =
  Outbound int32 "('core, 'conn, 'w) ob_ctor"
| Inbound int32 "('core, 'nc, 'conn, 'w) ib_ctor"

fun register_all ::
  "('core, 'nc, 'conn, 'w) registration list \<Rightarrow> ('core, 'nc, 'conn, 'w) registry
     \<Rightarrow> panic + ('core, 'nc, 'conn, 'w) registry" where
  "register_all [] reg = Inr reg"
| "register_all (Outbound v f # rs) reg =
     (case RegisterOutboundRuntimeConnWithVersion v f reg of
        Inl p \<Rightarrow> Inl p | Inr reg' \<Rightarrow> register_all rs reg')"
| "register_all (Inbound v f # rs) reg =
     (case RegisterInboundRuntimeConnWithVersion v f reg of
        Inl p \<Rightarrow> Inl p | Inr reg' \<Rightarrow> register_all rs reg')"

section \<open>The connect import (package v0)\<close>

text \<open>
  A \<^verbatim>\<open>wasmtime.Val\<close> is a tagged WebAssembly value; the wrapper builds 32-bit integers
  and only counts the values it is given. A \<^verbatim>\<open>*wasmtime.Trap\<close> is its message, \<^verbatim>\<open>nil\<close>
  is \<open>None\<close>. A \<^verbatim>\<open>WASIConnectFunc\<close> is Go code acting on the rest of the process, as a
  constructor is. \<^verbatim>\<open>%v\<close> prints an error as its message.

  The constants \<^verbatim>\<open>wasm.INVALID_ARGUMENT\<close> and \<^verbatim>\<open>wasm.INVALID_FUNCTION\<close> are declared in
  package \<^verbatim>\<open>internal/wasm\<close>; the functions below take them as parameters.
\<close>

datatype val = ValI32 int32 | ValI64 "64 word"

datatype trap = NewTrap string

fun Error :: "go_error \<Rightarrow> string" where
  "Error (Errorf s) = s"

type_synonym ('caller, 'w) WASIConnectFunc = "'caller \<Rightarrow> 'w \<Rightarrow> (int32 \<times> go_error option) \<times> 'w"

type_synonym ('caller, 'w) WASMTIMEStoreIndependentFunction =
  "'caller \<Rightarrow> val list \<Rightarrow> 'w \<Rightarrow> (val list \<times> trap option) \<times> 'w"

definition WrapConnectFunc ::
  "int32 \<Rightarrow> ('caller, 'w) WASIConnectFunc \<Rightarrow> ('caller, 'w) WASMTIMEStoreIndependentFunction" where
  "WrapConnectFunc INVALID_ARGUMENT f caller vals w =
     (if length vals \<noteq> 0 then
        (([ValI32 INVALID_ARGUMENT],
          Some (NewTrap (''v0.WASIConnectFunc expects 0 argument, got ''
                           @ fmt_d (int (length vals))))), w)
      else
        (case f caller w of
           ((fd, err), w') \<Rightarrow>
             (case err of
                Some e \<Rightarrow> (([ValI32 fd], Some (NewTrap (''v0.WASIConnectFunc: '' @ Error e))), w')
              | None \<Rightarrow> (([ValI32 fd], None), w'))))"

definition unimplementedWASIConnectFunc :: "int32 \<Rightarrow> ('caller, 'w) WASIConnectFunc" where
  "unimplementedWASIConnectFunc INVALID_FUNCTION caller w =
     ((INVALID_FUNCTION, Some (Errorf ''NOP WASIConnectFunc is called'')), w)"

definition WrappedUnimplementedWASIConnectFunc ::
  "int32 \<Rightarrow> int32 \<Rightarrow> ('caller, 'w) WASMTIMEStoreIndependentFunction" where
  "WrappedUnimplementedWASIConnectFunc INVALID_ARGUMENT INVALID_FUNCTION =
     WrapConnectFunc INVALID_ARGUMENT (unimplementedWASIConnectFunc INVALID_FUNCTION)"

section \<open>The managed dialer (package v0)\<close>

record ('nc, 'w) ManagedDialer =
  network :: string
  address :: string
  dialerFunc :: "string \<Rightarrow> string \<Rightarrow> 'w \<Rightarrow> ('nc option \<times> go_error option) \<times> 'w"

definition NewManagedDialer ::
  "string \<Rightarrow> string \<Rightarrow> (string \<Rightarrow> string \<Rightarrow> 'w \<Rightarrow> ('nc option \<times> go_error option) \<times> 'w)
     \<Rightarrow> ('nc, 'w) ManagedDialer" where
  "NewManagedDialer network' address' dialerFunc' =
     \<lparr>network = network', address = address', dialerFunc = dialerFunc'\<rparr>"

definition Dial :: "('nc, 'w) ManagedDialer \<Rightarrow> 'w \<Rightarrow> ('nc option \<times> go_error option) \<times> 'w" where
  "Dial md w = dialerFunc md (network md) (address md) w"

section \<open>The runtime connection (package transport/v0)\<close>

text \<open>
  The connection type \<^verbatim>\<open>v0.Conn\<close>, the transport modules and the raw connection under
  them are what \<^verbatim>\<open>testDialerPlain\<close> and \<^verbatim>\<open>ExampleListener\<close> exercise. The definitions
  of this section describe them as the specification's section 4.5 and its testable
  properties do, at the granularity of whole messages: a write hands one message to the
  raw connection, a read takes the oldest pending one, and the caller's buffer is large
  enough for it (1024 bytes in the tests).
\<close>

text \<open>
  Modelled from the spec: the states of a runtime connection (\<^verbatim>\<open>v0.Conn\<close>, whose code
  is missing), \<^verbatim>\<open>Created -> Active -> Closed\<close>, plus the absorbing \<^verbatim>\<open>Faulted\<close>.
\<close>

datatype conn_state = Created | Active | Closed | Faulted

text \<open>
  Modelled from the spec: the errors of the operations of \<^verbatim>\<open>v0.Conn\<close> (missing): use of
  a closed connection, a guest fault surfaced as an I/O error, and a failure of the host to
  release its resources on close (the only error that close propagates).
\<close>

datatype conn_error = UseOfClosedConnection | IOError | ReleaseError

text \<open>
  Modelled from the spec: a transport module (a WebAssembly binary, missing), as its read
  and write exports: each is given a message and returns the transformed message, or
  faults (\<open>None\<close>: a trap or a negative status).
\<close>

record 'b guest_module =
  read_export :: "'b list \<Rightarrow> 'b list option"
  write_export :: "'b list \<Rightarrow> 'b list option"

text \<open>
  Modelled from the spec: a runtime connection (\<^verbatim>\<open>v0.Conn\<close>, missing) with its raw
  connection: the state, the messages written to the raw connection and not yet read by
  the peer, and the messages written by the peer and not yet read, oldest first.
\<close>

record 'b conn =
  state :: conn_state
  to_peer :: "'b list list"
  from_peer :: "'b list list"

text \<open>
  Modelled from the spec: \<^verbatim>\<open>Read\<close> of \<^verbatim>\<open>v0.Conn\<close> (missing). It is valid only in
  \<^verbatim>\<open>Active\<close> and fails with \<^verbatim>\<open>UseOfClosedConnection\<close> otherwise. It passes the pending message through the guest's
  read export; a guest fault moves the connection to \<^verbatim>\<open>Faulted\<close> and is surfaced as an
  I/O error. With nothing pending and no deadline set the read blocks: it does not
  return (\<open>None\<close>). Deadlines are not part of this model.
\<close>

definition conn_read ::
  "'b guest_module \<Rightarrow> 'b conn \<Rightarrow> ((conn_error + 'b list) \<times> 'b conn) option" where
  "conn_read g c =
     (if state c \<noteq> Active then Some (Inl UseOfClosedConnection, c)
      else (case from_peer c of
              [] \<Rightarrow> None
            | m # ms \<Rightarrow>
                (case read_export g m of
                   None \<Rightarrow> Some (Inl IOError, c\<lparr>state := Faulted, from_peer := ms\<rparr>)
                 | Some out \<Rightarrow> Some (Inr out, c\<lparr>from_peer := ms\<rparr>))))"

text \<open>
  Modelled from the spec: \<^verbatim>\<open>Write\<close> of \<^verbatim>\<open>v0.Conn\<close> (missing). It is symmetric, using
  the guest's write export; on success it returns the number of bytes it was given.
\<close>

definition conn_write ::
  "'b guest_module \<Rightarrow> 'b conn \<Rightarrow> 'b list \<Rightarrow> (conn_error + nat) \<times> 'b conn" where
  "conn_write g c msg =
     (if state c \<noteq> Active then (Inl UseOfClosedConnection, c)
      else (case write_export g msg of
              None \<Rightarrow> (Inl IOError, c\<lparr>state := Faulted\<rparr>)
            | Some out \<Rightarrow> (Inr (length msg), c\<lparr>to_peer := to_peer c @ [out]\<rparr>)))"

text \<open>
  Modelled from the spec: \<^verbatim>\<open>Close\<close> of \<^verbatim>\<open>v0.Conn\<close> (missing). It invokes the guest's
  close export (a fault there is logged, not re-raised), tears down the runtime core and moves to \<^verbatim>\<open>Closed\<close>; a failure
  of the host to release its resources is propagated. A second close is a no-op success,
  and \<^verbatim>\<open>Faulted\<close> behaves like \<^verbatim>\<open>Closed\<close>.
\<close>

definition conn_close :: "bool \<Rightarrow> bool \<Rightarrow> 'b conn \<Rightarrow> conn_error option \<times> 'b conn" where
  "conn_close guest_close_faults release_fails c =
     (if state c = Closed \<or> state c = Faulted then (None, c)
      else (if release_fails then Some ReleaseError else None, c\<lparr>state := Closed\<rparr>))"

text \<open>
  Modelled from the spec: the peer's end of the raw connection (a TCP connection of
  package net, missing) reads the oldest message in flight to it; with none in flight
  the read does not return (\<open>None\<close>).
\<close>

definition peer_read :: "'b conn \<Rightarrow> ('b list \<times> 'b conn) option" where
  "peer_read c = (case to_peer c of [] \<Rightarrow> None | m # ms \<Rightarrow> Some (m, c\<lparr>to_peer := ms\<rparr>))"

text \<open>
  Modelled from the spec: a write at the peer's end of the raw connection (missing, as
  above): the message is pending for the connection, behind what is pending already.
\<close>

definition peer_write :: "'b list \<Rightarrow> 'b conn \<Rightarrow> 'b conn" where
  "peer_write msg c = c\<lparr>from_peer := from_peer c @ [msg]\<rparr>"

text \<open>
  Modelled from the spec: the module of the concrete scenario (\<^verbatim>\<open>reverse.wasm\<close> in
  \<^verbatim>\<open>ExampleListener\<close>, a binary that is missing), which reverses the bytes on both read
  and write and never faults.
\<close>

definition reverse_module :: "'b guest_module" where
  "reverse_module = \<lparr>read_export = (\<lambda>m. Some (rev m)), write_export = (\<lambda>m. Some (rev m))\<rparr>"

text \<open>
  The exchange of \<^verbatim>\<open>ExampleListener\<close>, repeated as the loop of \<^verbatim>\<open>testDialerPlain\<close>
  repeats it: in each round the connection writes \<open>a\<close> (and the count returned must be
  the length of \<open>a\<close>), the peer reads, the peer writes \<open>b\<close>, the connection reads. The
  result is what the peer and the connection observed in each round, or \<open>None\<close> when a
  step fails or does not return.
\<close>

fun exchanges ::
  "'b guest_module \<Rightarrow> 'b conn \<Rightarrow> ('b list \<times> 'b list) list
     \<Rightarrow> (('b list \<times> 'b list) list \<times> 'b conn) option" where
  "exchanges g c [] = Some ([], c)"
| "exchanges g c ((a, b) # rest) =
     (case conn_write g c a of
        (Inl e, c1) \<Rightarrow> None
      | (Inr n, c1) \<Rightarrow>
          (if n \<noteq> length a then None
           else (case peer_read c1 of
              None \<Rightarrow> None
            | Some (x, c2) \<Rightarrow>
                (case conn_read g (peer_write b c2) of
                   None \<Rightarrow> None
                 | Some (Inl e, c3) \<Rightarrow> None
                 | Some (Inr y, c3) \<Rightarrow>
                     (case exchanges g c3 rest of
                        None \<Rightarrow> None
                      | Some (obs, c4) \<Rightarrow> Some ((x, y) # obs, c4))))))"

section \<open>Concrete inputs\<close>

text \<open>
  Inputs for the examples that follow: a connect function whose dial is refused, two
  constructors of version 0 and the registry holding them, a fresh active connection, and
  ten rounds of messages. In the examples \<^verbatim>\<open>wasm.INVALID_ARGUMENT\<close> is \<open>- 2\<close> and
  \<^verbatim>\<open>wasm.INVALID_FUNCTION\<close> is \<open>- 5\<close>; any other negative values serve as well.
\<close>

definition refused_connect :: "(unit, nat) WASIConnectFunc" where
  "refused_connect caller w = ((- 1, Some (Errorf ''connection refused'')), Suc w)"

definition plain_ctor :: "(unit, string, nat) ob_ctor" where
  "plain_ctor core w = ((Some ''v0 conn'', None), Suc w)"

definition plain_ib_ctor :: "(unit, unit, string, nat) ib_ctor" where
  "plain_ib_ctor core ibc w = ((Some ''v0 inbound conn'', None), Suc w)"

definition registry_v0 :: "(unit, unit, string, nat) registry" where
  "registry_v0 = \<lparr>mapOBRCV = [0 \<mapsto> plain_ctor], mapIBRCV = [0 \<mapsto> plain_ib_ctor]\<rparr>"

definition fresh_conn :: "char conn" where
  "fresh_conn = \<lparr>state = Active, to_peer = [], from_peer = []\<rparr>"

definition ten_rounds :: "(string \<times> string) list" where
  "ten_rounds =
     [(''hello'', ''hello''), (''ab'', ''cde''), (''water'', ''wasm''), (''x'', ''yz''),
      (''one'', ''two''), (''three'', ''four''), (''dial'', ''accept''), (''read'', ''write''),
      (''Abc'', ''dEf''), (''last'', ''round'')]"

section \<open>Theorems\<close>

subsection \<open>Formatting\<close>

lemma fmt_d_2: "fmt_d (sint (2 :: int32)) = ''2''"
  by (simp add: fmt_d_def fmt_nat.simps)

lemma fmt_d_neg: "fmt_d (sint (- 17 :: int32)) = ''-17''"
  by (simp add: fmt_d_def fmt_nat.simps)

subsection \<open>Version registry\<close>

text \<open>
  C1. For every version \<open>v\<close> with no registered outbound constructor,
  \<^verbatim>\<open>OutboundRuntimeConnWithVersion(core, v)\<close> returns no connection and the error
  "water: unknown version: v", for every core; likewise \<^verbatim>\<open>InboundRuntimeConnWithVersion\<close>
  for every version with no registered inbound constructor, every core and every raw
  connection. Neither the registry nor the rest of the process changes: no constructor
  runs.
\<close>

theorem unknown_version_fails:
  "(mapOBRCV reg v = None \<longrightarrow>
      OutboundRuntimeConnWithVersion core v reg w =
        ((None, Some (Errorf (''water: unknown version: '' @ fmt_d (sint v)))), reg, w))
   \<and> (mapIBRCV reg v = None \<longrightarrow>
      InboundRuntimeConnWithVersion core v rawConn reg w =
        ((None, Some (Errorf (''water: unknown version: '' @ fmt_d (sint v)))), reg, w))"
  by (simp add: OutboundRuntimeConnWithVersion_def InboundRuntimeConnWithVersion_def)

text \<open>The empty registry knows no version 7, in either direction.\<close>

theorem unknown_version_fails_witness:
  "mapOBRCV (registry_init :: (unit, unit, unit, nat) registry) 7 = None
   \<and> mapIBRCV (registry_init :: (unit, unit, unit, nat) registry) 7 = None
   \<and> OutboundRuntimeConnWithVersion () 7 (registry_init :: (unit, unit, unit, nat) registry) 0 =
       ((None, Some (Errorf ''water: unknown version: 7'')), registry_init, 0)
   \<and> InboundRuntimeConnWithVersion () 7 () (registry_init :: (unit, unit, unit, nat) registry) 0 =
       ((None, Some (Errorf ''water: unknown version: 7'')), registry_init, 0)"
  using unknown_version_fails [of "registry_init :: (unit, unit, unit, nat) registry" 7 "()" 0 "()"]
  by (simp add: registry_init_def fmt_d_def fmt_nat.simps)

text \<open>
  C2. For every version \<open>v\<close> already present in the outbound registry,
  \<^verbatim>\<open>RegisterOutboundRuntimeConnWithVersion(v, f)\<close> panics with
  "water: version v already registered" for every constructor \<open>f\<close>, and no registry comes
  back: the entry is neither replaced nor kept. Likewise for the inbound registry.
\<close>

theorem duplicate_registration_panics:
  "(mapOBRCV reg v \<noteq> None \<longrightarrow>
      RegisterOutboundRuntimeConnWithVersion v f reg =
        Inl (Panic (''water: version '' @ fmt_d (sint v) @ '' already registered'')))
   \<and> (mapIBRCV reg v \<noteq> None \<longrightarrow>
      RegisterInboundRuntimeConnWithVersion v g reg =
        Inl (Panic (''water: version '' @ fmt_d (sint v) @ '' already registered'')))"
  by (auto simp: RegisterOutboundRuntimeConnWithVersion_def
      RegisterInboundRuntimeConnWithVersion_def)

text \<open>Registering version 0 again, in a registry that holds it in both directions.\<close>

theorem duplicate_registration_panics_witness:
  "mapOBRCV registry_v0 0 \<noteq> None \<and> mapIBRCV registry_v0 0 \<noteq> None
   \<and> RegisterOutboundRuntimeConnWithVersion 0 plain_ctor registry_v0 =
       Inl (Panic ''water: version 0 already registered'')
   \<and> RegisterInboundRuntimeConnWithVersion 0 plain_ib_ctor registry_v0 =
       Inl (Panic ''water: version 0 already registered'')"
  using duplicate_registration_panics [of registry_v0 0 plain_ctor plain_ib_ctor]
  by (simp add: registry_v0_def fmt_d_def fmt_nat.simps)

text \<open>An outbound entry survives every later registration that does not panic.\<close>

lemma register_all_keeps_outbound:
  "register_all rs reg = Inr reg' \<Longrightarrow> mapOBRCV reg v = Some f \<Longrightarrow> mapOBRCV reg' v = Some f"
proof (induction rs reg rule: register_all.induct)
  case (1 reg)
  then show ?case by simp
next
  case (2 u g rs reg)
  from "2.prems" have free: "mapOBRCV reg u = None"
    and rest: "register_all rs (reg\<lparr>mapOBRCV := (mapOBRCV reg)(u \<mapsto> g)\<rparr>) = Inr reg'"
    by (auto simp: RegisterOutboundRuntimeConnWithVersion_def split: option.splits)
  from free "2.prems"(2) have "v \<noteq> u" by auto
  then have "mapOBRCV (reg\<lparr>mapOBRCV := (mapOBRCV reg)(u \<mapsto> g)\<rparr>) v = Some f"
    using "2.prems"(2) by simp
  with "2.IH" free rest show ?case
    by (simp add: RegisterOutboundRuntimeConnWithVersion_def)
next
  case (3 u g rs reg)
  then show ?case
    by (auto simp: RegisterInboundRuntimeConnWithVersion_def split: option.splits sum.splits)
qed

text \<open>
  C10. When \<^verbatim>\<open>RegisterOutboundRuntimeConnWithVersion(v, f)\<close> registers \<open>v\<close> for the first
  time (it returns normally), then after any further registrations that do not panic,
  \<^verbatim>\<open>OutboundRuntimeConnWithVersion(core, v)\<close> returns exactly the result of \<open>f(core)\<close> and
  leaves both registry maps as they were. The registration leaves the inbound map as it
  was, so a version unknown inbound before it is still unknown inbound after it.
\<close>

theorem registered_outbound_is_constructed:
  assumes "RegisterOutboundRuntimeConnWithVersion v f reg = Inr reg1"
    and "register_all rs reg1 = Inr reg2"
  shows "OutboundRuntimeConnWithVersion core v reg2 w =
           (fst (f core w), reg2, snd (f core w))
         \<and> mapIBRCV reg1 = mapIBRCV reg
         \<and> (mapIBRCV reg v = None \<longrightarrow>
              InboundRuntimeConnWithVersion core v rawConn reg1 w =
                ((None, Some (Errorf (''water: unknown version: '' @ fmt_d (sint v)))), reg1, w))"
proof -
  from assms(1) have r1: "reg1 = reg\<lparr>mapOBRCV := (mapOBRCV reg)(v \<mapsto> f)\<rparr>"
    by (simp add: RegisterOutboundRuntimeConnWithVersion_def split: option.splits)
  then have "mapOBRCV reg1 v = Some f" by simp
  with assms(2) have "mapOBRCV reg2 v = Some f"
    by (rule register_all_keeps_outbound)
  then have "OutboundRuntimeConnWithVersion core v reg2 w = (fst (f core w), reg2, snd (f core w))"
    by (simp add: OutboundRuntimeConnWithVersion_def split: prod.splits)
  moreover from r1 have "mapIBRCV reg1 = mapIBRCV reg" by simp
  ultimately show ?thesis
    by (simp add: InboundRuntimeConnWithVersion_def)
qed

text \<open>
  Version 0 registered outbound in the empty registry, then version 1 in both directions:
  version 0 is constructed by its constructor and is still unknown inbound.
\<close>

theorem registered_outbound_is_constructed_witness:
  "RegisterOutboundRuntimeConnWithVersion 0 plain_ctor
       (registry_init :: (unit, unit, string, nat) registry) =
     Inr \<lparr>mapOBRCV = [0 \<mapsto> plain_ctor], mapIBRCV = Map.empty\<rparr>
   \<and> register_all [Inbound 1 plain_ib_ctor, Outbound 1 plain_ctor]
       \<lparr>mapOBRCV = [0 \<mapsto> plain_ctor], mapIBRCV = Map.empty\<rparr> =
     Inr \<lparr>mapOBRCV = [0 \<mapsto> plain_ctor, 1 \<mapsto> plain_ctor], mapIBRCV = [1 \<mapsto> plain_ib_ctor]\<rparr>
   \<and> mapIBRCV (registry_init :: (unit, unit, string, nat) registry) 0 = None
   \<and> OutboundRuntimeConnWithVersion () 0
       \<lparr>mapOBRCV = [0 \<mapsto> plain_ctor, 1 \<mapsto> plain_ctor], mapIBRCV = [1 \<mapsto> plain_ib_ctor]\<rparr> 4 =
     ((Some ''v0 conn'', None),
      \<lparr>mapOBRCV = [0 \<mapsto> plain_ctor, 1 \<mapsto> plain_ctor], mapIBRCV = [1 \<mapsto> plain_ib_ctor]\<rparr>, 5)
   \<and> InboundRuntimeConnWithVersion () 0 ()
       \<lparr>mapOBRCV = [0 \<mapsto> plain_ctor], mapIBRCV = Map.empty\<rparr> 4 =
     ((None, Some (Errorf ''water: unknown version: 0'')),
      \<lparr>mapOBRCV = [0 \<mapsto> plain_ctor], mapIBRCV = Map.empty\<rparr>, 4)"
proof -
  have a: "RegisterOutboundRuntimeConnWithVersion 0 plain_ctor
             (registry_init :: (unit, unit, string, nat) registry) =
           Inr \<lparr>mapOBRCV = [0 \<mapsto> plain_ctor], mapIBRCV = Map.empty\<rparr>"
    by (simp add: RegisterOutboundRuntimeConnWithVersion_def registry_init_def)
  have b: "register_all [Inbound 1 plain_ib_ctor, Outbound 1 plain_ctor]
             \<lparr>mapOBRCV = [0 \<mapsto> plain_ctor], mapIBRCV = Map.empty\<rparr> =
           Inr \<lparr>mapOBRCV = [0 \<mapsto> plain_ctor, 1 \<mapsto> plain_ctor],
                mapIBRCV = [1 \<mapsto> plain_ib_ctor]\<rparr>"
    by (simp add: RegisterOutboundRuntimeConnWithVersion_def
        RegisterInboundRuntimeConnWithVersion_def)
  have c: "mapIBRCV (registry_init :: (unit, unit, string, nat) registry) 0 = None"
    by (simp add: registry_init_def)
  from registered_outbound_is_constructed [OF a b, of "()" 4 "()"] a b c show ?thesis
    by (simp add: registry_init_def plain_ctor_def fmt_d_def fmt_nat.simps)
qed

subsection \<open>The connect import\<close>

text \<open>
  C3, as the code has it. For every connect function \<open>f\<close> and every invocation of the
  wrapped connect import with zero arguments, if \<open>f\<close> returns an error then the wrapped
  function returns the code that \<open>f\<close> returned (expected to be negative, not checked)
  together with a trap whose message is "v0.WASIConnectFunc: " followed by the error's
  message.
\<close>

theorem wrapped_connect_error_traps:
  "f caller w = ((fd, Some e), w') \<Longrightarrow>
     WrapConnectFunc INVALID_ARGUMENT f caller [] w =
       (([ValI32 fd], Some (NewTrap (''v0.WASIConnectFunc: '' @ Error e))), w')"
  by (simp add: WrapConnectFunc_def)

text \<open>A refused dial: the code \<open>- 1\<close> comes back with a trap.\<close>

theorem wrapped_connect_error_traps_witness:
  "refused_connect () 0 = ((- 1, Some (Errorf ''connection refused'')), 1)
   \<and> WrapConnectFunc (- 2) refused_connect () [] 0 =
       (([ValI32 (- 1)], Some (NewTrap ''v0.WASIConnectFunc: connection refused'')), 1)"
proof -
  have h: "refused_connect () 0 = ((- 1, Some (Errorf ''connection refused'')), 1)"
    by (simp add: refused_connect_def)
  from wrapped_connect_error_traps
         [of refused_connect "()" 0 "- 1" "Errorf ''connection refused''" 1 "- 2"] h
  show ?thesis by simp
qed

text \<open>
  The wrapped function does not return without a trap when \<open>f\<close> fails: the refused
  dial returns an error, and the wrapper called with zero arguments returns a trap.
\<close>

theorem wrapped_connect_error_no_trap_counterexample:
  "snd (fst (refused_connect () 0)) = Some (Errorf ''connection refused'')
   \<and> snd (fst (WrapConnectFunc (- 2) refused_connect () [] 0)) =
       Some (NewTrap ''v0.WASIConnectFunc: connection refused'')"
  by (simp add: WrapConnectFunc_def refused_connect_def)

text \<open>
  C5. Every invocation of the unimplemented connect function returns the
  \<^verbatim>\<open>INVALID_FUNCTION\<close> code together with the error "NOP WASIConnectFunc is called", never
  a \<^verbatim>\<open>nil\<close> error; the code is negative as \<^verbatim>\<open>wasm.INVALID_FUNCTION\<close> is. Through its
  wrapper, a guest's call (zero arguments, as \<^verbatim>\<open>WASIConnectFuncType\<close> declares) gets
  that code together with a trap.
\<close>

theorem unimplemented_connect_fails:
  assumes "sint INVALID_FUNCTION < 0"
  shows "unimplementedWASIConnectFunc INVALID_FUNCTION caller w =
           ((INVALID_FUNCTION, Some (Errorf ''NOP WASIConnectFunc is called'')), w)
         \<and> sint (fst (fst (unimplementedWASIConnectFunc INVALID_FUNCTION caller w))) < 0
         \<and> snd (fst (unimplementedWASIConnectFunc INVALID_FUNCTION caller w)) \<noteq> None
         \<and> WrappedUnimplementedWASIConnectFunc INVALID_ARGUMENT INVALID_FUNCTION caller [] w =
             (([ValI32 INVALID_FUNCTION],
               Some (NewTrap ''v0.WASIConnectFunc: NOP WASIConnectFunc is called'')), w)"
  using assms
  by (simp add: unimplementedWASIConnectFunc_def WrappedUnimplementedWASIConnectFunc_def
      WrapConnectFunc_def)

theorem unimplemented_connect_fails_witness:
  "sint (- 5 :: int32) < 0
   \<and> unimplementedWASIConnectFunc (- 5) () (0::nat) =
       ((- 5, Some (Errorf ''NOP WASIConnectFunc is called'')), 0)
   \<and> WrappedUnimplementedWASIConnectFunc (- 2) (- 5) () [] (0::nat) =
       (([ValI32 (- 5)], Some (NewTrap ''v0.WASIConnectFunc: NOP WASIConnectFunc is called'')), 0)"
proof -
  have h: "sint (- 5 :: int32) < 0" by simp
  from unimplemented_connect_fails [OF h, of "()" "0::nat" "- 2"] h show ?thesis by simp
qed

text \<open>
  C9. For every connect function \<open>f\<close>, the function produced by \<^verbatim>\<open>WrapConnectFunc(f)\<close>,
  invoked with a non-empty argument list, does not call \<open>f\<close>: whatever \<open>f\<close> is, it
  returns the \<^verbatim>\<open>INVALID_ARGUMENT\<close> code with the argument-count trap and leaves the rest
  of the process as it was. Invoked with zero arguments it returns what \<open>f\<close>'s result
  determines, and its trap, if any, is never the argument-count trap.
\<close>

theorem wrapped_connect_rejects_arguments:
  "(vals \<noteq> [] \<longrightarrow>
      WrapConnectFunc INVALID_ARGUMENT f caller vals w =
        (([ValI32 INVALID_ARGUMENT],
          Some (NewTrap (''v0.WASIConnectFunc expects 0 argument, got ''
                           @ fmt_d (int (length vals))))), w))
   \<and> WrapConnectFunc INVALID_ARGUMENT f caller [] w =
       (case f caller w of
          ((fd, None), w') \<Rightarrow> (([ValI32 fd], None), w')
        | ((fd, Some e), w') \<Rightarrow>
            (([ValI32 fd], Some (NewTrap (''v0.WASIConnectFunc: '' @ Error e))), w'))
   \<and> snd (fst (WrapConnectFunc INVALID_ARGUMENT f caller [] w)) \<noteq>
       Some (NewTrap (''v0.WASIConnectFunc expects 0 argument, got '' @ s))"
  by (simp add: WrapConnectFunc_def split: prod.splits option.splits)

text \<open>Two arguments: the refused dial is not attempted (the state stays 0).\<close>

theorem wrapped_connect_rejects_arguments_witness:
  "[ValI32 80, ValI64 443] \<noteq> []
   \<and> WrapConnectFunc (- 2) refused_connect () [ValI32 80, ValI64 443] 0 =
       (([ValI32 (- 2)], Some (NewTrap ''v0.WASIConnectFunc expects 0 argument, got 2'')), 0)"
  using wrapped_connect_rejects_arguments [of "[ValI32 80, ValI64 443]" "- 2" refused_connect "()" 0]
  by (simp add: fmt_d_def fmt_nat.simps)

subsection \<open>The managed dialer\<close>

text \<open>
  C4. For every dialer built by \<^verbatim>\<open>NewManagedDialer(network, address, dialerFunc)\<close>, a call
  of \<^verbatim>\<open>Dial()\<close>, in whatever state of the process, is the call of \<open>dialerFunc\<close> with
  exactly that network and address, and returns its result. \<^verbatim>\<open>Dial\<close> takes nothing but
  the dialer, whose network and address are those of the construction.
\<close>

theorem managed_dialer_dials_bound_target:
  "Dial (NewManagedDialer network' address' dialerFunc') w = dialerFunc' network' address' w
   \<and> network (NewManagedDialer network' address' dialerFunc') = network'
   \<and> address (NewManagedDialer network' address' dialerFunc') = address'"
  by (simp add: Dial_def NewManagedDialer_def)

subsection \<open>The runtime connection\<close>

text \<open>
  C6. For every connection on which close has returned successfully, a read and a write
  fail with \<^verbatim>\<open>UseOfClosedConnection\<close>, whatever the module and the pending data, and a
  second close succeeds; none of the three changes the connection, so the same holds
  after any number of them.
\<close>

theorem closed_connection_rejects_io:
  assumes "conn_close guest_close_faults release_fails c = (None, c')"
  shows "conn_read g c' = Some (Inl UseOfClosedConnection, c')
         \<and> conn_write g c' msg = (Inl UseOfClosedConnection, c')
         \<and> conn_close guest_close_faults' release_fails' c' = (None, c')"
proof -
  from assms have "state c' = Closed \<or> state c' = Faulted"
    by (auto simp: conn_close_def split: if_splits)
  then show ?thesis
    by (auto simp: conn_read_def conn_write_def conn_close_def)
qed

text \<open>An active connection with a message pending, closed: the message is not read.\<close>

theorem closed_connection_rejects_io_witness:
  "conn_close False False (fresh_conn\<lparr>from_peer := [''olleh'']\<rparr>) =
     (None, \<lparr>state = Closed, to_peer = [], from_peer = [''olleh'']\<rparr>)
   \<and> conn_read reverse_module \<lparr>state = Closed, to_peer = [], from_peer = [''olleh'']\<rparr> =
       Some (Inl UseOfClosedConnection, \<lparr>state = Closed, to_peer = [], from_peer = [''olleh'']\<rparr>)
   \<and> conn_write reverse_module \<lparr>state = Closed, to_peer = [], from_peer = [''olleh'']\<rparr> ''hello'' =
       (Inl UseOfClosedConnection, \<lparr>state = Closed, to_peer = [], from_peer = [''olleh'']\<rparr>)
   \<and> conn_close True True \<lparr>state = Closed, to_peer = [], from_peer = [''olleh'']\<rparr> =
       (None, \<lparr>state = Closed, to_peer = [], from_peer = [''olleh'']\<rparr>)"
proof -
  have h: "conn_close False False (fresh_conn\<lparr>from_peer := [''olleh'']\<rparr>) =
             (None, \<lparr>state = Closed, to_peer = [], from_peer = [''olleh'']\<rparr>)"
    by (simp add: conn_close_def fresh_conn_def)
  from closed_connection_rejects_io [OF h, of reverse_module "''hello''" True True] h
  show ?thesis by simp
qed

text \<open>One round on a fresh connection with the reversing module.\<close>

lemma exchange_round:
  assumes "state c = Active" "to_peer c = []" "from_peer c = []"
  shows "conn_write reverse_module c a = (Inr (length a), c\<lparr>to_peer := [rev a]\<rparr>)"
    and "peer_read (c\<lparr>to_peer := [rev a]\<rparr>) = Some (rev a, c)"
    and "conn_read reverse_module (peer_write b c) = Some (Inr (rev b), c)"
  using assms
  by (simp_all add: conn_write_def peer_read_def conn_read_def peer_write_def reverse_module_def)

text \<open>
  C8. On an active connection with nothing in flight, using the byte-reversing module,
  any number of consecutive exchanges (ten among them) succeeds: in every round the peer
  observes the reverse of what the connection wrote and the connection observes the
  reverse of what the peer wrote, round by round in the order written, and nothing is
  left in flight.
\<close>

theorem reverse_round_trip:
  assumes "state c = Active" "to_peer c = []" "from_peer c = []"
  shows "exchanges reverse_module c msgs = Some (map (\<lambda>(a, b). (rev a, rev b)) msgs, c)"
proof (induction msgs)
  case Nil
  show ?case by simp
next
  case (Cons m msgs)
  obtain a b where m: "m = (a, b)" by (cases m)
  show ?case
    unfolding m using Cons.IH exchange_round [OF assms] by simp
qed

text \<open>Ten rounds of different messages.\<close>

theorem reverse_round_trip_witness:
  "state fresh_conn = Active \<and> to_peer fresh_conn = [] \<and> from_peer fresh_conn = []
   \<and> length ten_rounds = 10
   \<and> exchanges reverse_module fresh_conn ten_rounds =
       Some ([(''olleh'', ''olleh''), (''ba'', ''edc''), (''retaw'', ''msaw''), (''x'', ''zy''),
              (''eno'', ''owt''), (''eerht'', ''ruof''), (''laid'', ''tpecca''),
              (''daer'', ''etirw''), (''cbA'', ''fEd''), (''tsal'', ''dnuor'')], fresh_conn)"
proof -
  have h: "state fresh_conn = Active" "to_peer fresh_conn = []" "from_peer fresh_conn = []"
    by (simp_all add: fresh_conn_def)
  from reverse_round_trip [OF h, of ten_rounds] h show ?thesis
    by (simp add: ten_rounds_def)
qed

end
